theory Spec2Isabelle
  imports Main "HOL-Library.Sublist"
begin

section \<open>The CPU backend translator (LLVMToCpu.cpp)\<close>

text \<open>
  The development follows \<^verbatim>\<open>src/compiler/llvm-to-backend/cpu/LLVMToCpu.cpp\<close>.
  The IR module, the file system and the external compiler are libraries outside the
  file; the model keeps of them what the translator reads and writes, and takes what
  they compute as parameters (the record \<open>Collaborators\<close>).
\<close>

subsection \<open>The IR module\<close>

datatype LinkageTypes =
    ExternalLinkage
  | AvailableExternallyLinkage
  | LinkOnceAnyLinkage
  | LinkOnceODRLinkage
  | WeakAnyLinkage
  | WeakODRLinkage
  | AppendingLinkage
  | InternalLinkage
  | PrivateLinkage
  | ExternalWeakLinkage
  | CommonLinkage

record Function =
  Linkage :: LinkageTypes
  Body :: string

text \<open>
  A metadata operand: a reference to a function (by its symbol, the key under which the
  module's symbol table holds it), a metadata string, or an integer constant of a given
  bit width.
\<close>

datatype Metadata =
    ValueAsMetadata string
  | MDString string
  | ConstantAsMetadata nat int

type_synonym MDTuple = "Metadata list"

record Module =
  ModuleTargetTriple :: string
  Functions :: "string \<rightharpoonup> Function"
  NamedMetadata :: "string \<rightharpoonup> MDTuple list"

definition setTargetTriple :: "Module \<Rightarrow> string \<Rightarrow> Module" where
  "setTargetTriple M Triple = M\<lparr>ModuleTargetTriple := Triple\<rparr>"

definition getFunction :: "Module \<Rightarrow> string \<Rightarrow> Function option" where
  "getFunction M Name = Functions M Name"

text \<open>\<^verbatim>\<open>M.getOrInsertNamedMetadata(Name)->addOperand(Tuple)\<close>: the named node is created
  empty when the module has none, and the operand goes to the end of its operand list.\<close>

definition addNamedMetadataOperand :: "Module \<Rightarrow> string \<Rightarrow> MDTuple \<Rightarrow> Module" where
  "addNamedMetadataOperand M Name Tuple =
     M\<lparr>NamedMetadata := (NamedMetadata M)
          (Name \<mapsto> (case NamedMetadata M Name of None \<Rightarrow> [] | Some Ops \<Rightarrow> Ops) @ [Tuple])\<rparr>"

text \<open>\<^verbatim>\<open>F->setLinkage(L)\<close> for the function held under \<open>Name\<close>.\<close>

definition setLinkage :: "Module \<Rightarrow> string \<Rightarrow> LinkageTypes \<Rightarrow> Module" where
  "setLinkage M Name L =
     (case Functions M Name of
        None \<Rightarrow> M
      | Some F \<Rightarrow> M\<lparr>Functions := (Functions M)(Name \<mapsto> F\<lparr>Linkage := L\<rparr>)\<rparr>)"

subsection \<open>Address spaces\<close>

text \<open>
  The enumeration \<open>AddressSpace\<close> and the class \<open>AddressSpaceMap\<close> are declared in
  \<^verbatim>\<open>AddressSpaceMap.hpp\<close>; the enumerators are the ones this file names. The map is
  indexed by the enumerators; what a default-constructed map holds is a parameter of
  \<open>getAddressSpaceMap\<close>.
\<close>

datatype AddressSpace =
    Generic
  | Global
  | Local
  | Private
  | Constant
  | AllocaDefault
  | GlobalVariableDefault
  | ConstantGlobalVariableDefault

type_synonym AddressSpaceMap = "AddressSpace \<rightharpoonup> nat"

subsection \<open>The translator's state\<close>

text \<open>
  \<open>KernelNames\<close>, \<open>TargetTriple\<close> and \<open>MCpu\<close> are the members the constructor
  initialises.

  Modelled from the spec: the error log of the base class \<open>LLVMToBackendTranslator\<close>
  (its header is not among the sources). \<open>Errors\<close> is the append-only sequence of error
  strings, and \<open>registerError\<close> appends one entry.
\<close>

record LLVMToCpuTranslator =
  KernelNames :: "string list"
  TargetTriple :: string
  MCpu :: string
  Errors :: "string list"

definition registerError :: "LLVMToCpuTranslator \<Rightarrow> string \<Rightarrow> LLVMToCpuTranslator" where
  "registerError this E = this\<lparr>Errors := Errors this @ [E]\<rparr>"

subsection \<open>applyBuildOption\<close>

definition applyBuildOption ::
  "LLVMToCpuTranslator \<Rightarrow> string \<Rightarrow> string \<Rightarrow> bool \<times> LLVMToCpuTranslator" where
  "applyBuildOption this Option Value =
     (if Option = ''triple'' then (True, this\<lparr>TargetTriple := Value\<rparr>)
      else if Option = ''cpu'' then (True, this\<lparr>MCpu := Value\<rparr>)
      else (False, this))"

subsection \<open>isKernelAfterFlavoring\<close>

fun nameAmong :: "string \<Rightarrow> string list \<Rightarrow> bool" where
  "nameAmong FName [] = False"
| "nameAmong FName (Name # Names) = (if FName = Name then True else nameAmong FName Names)"

definition isKernelAfterFlavoring :: "LLVMToCpuTranslator \<Rightarrow> string \<Rightarrow> bool" where
  "isKernelAfterFlavoring this FName = nameAmong FName (KernelNames this)"

subsection \<open>getAddressSpaceMap\<close>

definition getAddressSpaceMap :: "LLVMToCpuTranslator \<Rightarrow> AddressSpaceMap \<Rightarrow> AddressSpaceMap" where
  "getAddressSpaceMap this ASMap0 =
     (let ASMap = ASMap0(Generic \<mapsto> 0);
          ASMap = ASMap(Global \<mapsto> 0);
          ASMap = ASMap(Local \<mapsto> 0);
          ASMap = ASMap(Private \<mapsto> 0);
          ASMap = ASMap(Constant \<mapsto> 0);
          ASMap = ASMap(AllocaDefault \<mapsto> 0);
          ASMap = ASMap(GlobalVariableDefault \<mapsto> 0);
          ASMap = ASMap(ConstantGlobalVariableDefault \<mapsto> 0)
      in ASMap)"

subsection \<open>The world outside the translator\<close>

text \<open>
  The file system maps a path to the contents of the file there. \<open>Spawned\<close> is the
  history of processes the translator has run and waited for: program, argument vector
  and exit code.
\<close>

type_synonym FileSystem = "string \<rightharpoonup> string"

record World =
  Files :: FileSystem
  Spawned :: "(string \<times> string list \<times> int) list"

text \<open>
  What the libraries compute. \<open>linkBitcodeFile\<close> is the base-class member: it returns
  whether linking succeeded, the module as it leaves it, and the entries it registers in
  the error log. \<open>runPipeline\<close> is the module pass manager with the address-space
  inference pass and the CBS pipeline at O3. \<open>openForWriting\<close> says whether the dump
  stream opens and takes the dump without error. \<open>TempFile_create\<close> returns the unique
  name chosen for the model, or nothing when creation fails. \<open>erroredTmpName\<close> is what
  reading \<open>TmpName\<close> through an \<open>Expected\<close> that holds an error does (lines 137 and
  142, undefined by the library): nothing when the process ends there (the read faults
  or a check of the library aborts), or the string the read yields. \<open>ExecuteAndWait\<close> returns the exit code of the process and the file
  system as the process leaves it.
\<close>

record Collaborators =
  getProcessTriple :: string
  getHostCPUName :: string
  get_install_directory :: string
  join_path :: "string \<Rightarrow> string list \<Rightarrow> string"
  linkBitcodeFile :: "string \<Rightarrow> Module \<Rightarrow> bool \<times> Module \<times> string list"
  AddressSpaceMap_default :: AddressSpaceMap
  runPipeline :: "AddressSpaceMap \<Rightarrow> Module \<Rightarrow> Module"
  HIPSYCL_CLANG_PATH :: string
  printModule :: "Module \<Rightarrow> string"
  WriteBitcodeToFile :: "Module \<Rightarrow> string"
  openForWriting :: "string \<Rightarrow> FileSystem \<Rightarrow> bool"
  TempFile_create :: "string \<Rightarrow> FileSystem \<Rightarrow> string option"
  erroredTmpName :: "string \<Rightarrow> string option"
  ExecuteAndWait :: "string \<Rightarrow> string list \<Rightarrow> FileSystem \<Rightarrow> int \<times> FileSystem"
  getFile_error_message :: "string \<Rightarrow> FileSystem \<Rightarrow> string"

subsection \<open>Construction\<close>

definition createLLVMToCpuTranslator :: "Collaborators \<Rightarrow> string list \<Rightarrow> LLVMToCpuTranslator" where
  "createLLVMToCpuTranslator C KN =
     \<lparr>KernelNames = KN, TargetTriple = getProcessTriple C, MCpu = getHostCPUName C, Errors = []\<rparr>"

subsection \<open>toBackendFlavor\<close>

text \<open>The operands of lines 91 to 95: the function, the string \<open>kernel\<close>, the 32-bit
  constant 1.\<close>

definition kernelAnnotation :: "string \<Rightarrow> MDTuple" where
  "kernelAnnotation F = [ValueAsMetadata F, MDString ''kernel'', ConstantAsMetadata 32 1]"

text \<open>The body of the loop of line 88, for one kernel name.\<close>

definition flavorKernel :: "Module \<Rightarrow> string \<Rightarrow> Module" where
  "flavorKernel M KernelName =
     (case getFunction M KernelName of
        None \<Rightarrow> M
      | Some F \<Rightarrow>
          setLinkage
            (addNamedMetadataOperand M ''hipsycl.sscp.annotations'' (kernelAnnotation KernelName))
            KernelName ExternalLinkage)"

fun flavorKernels :: "Module \<Rightarrow> string list \<Rightarrow> Module" where
  "flavorKernels M [] = M"
| "flavorKernels M (KernelName # Names) = flavorKernels (flavorKernel M KernelName) Names"

definition BuiltinBitcodeFile :: "Collaborators \<Rightarrow> string" where
  "BuiltinBitcodeFile C =
     join_path C (get_install_directory C)
       [''lib'', ''hipSYCL'', ''bitcode'', ''libkernel-sscp-cpu-full.bc'']"

definition toBackendFlavor ::
  "Collaborators \<Rightarrow> LLVMToCpuTranslator \<Rightarrow> Module \<Rightarrow> bool \<times> LLVMToCpuTranslator \<times> Module" where
  "toBackendFlavor C this M =
     (let Triple = getProcessTriple C;
          M = setTargetTriple M Triple;
          ASMap = getAddressSpaceMap this (AddressSpaceMap_default C);
          M = flavorKernels M (KernelNames this)
      in case linkBitcodeFile C (BuiltinBitcodeFile C) M of
           (Linked, M, Errs) \<Rightarrow>
             let this = this\<lparr>Errors := Errors this @ Errs\<rparr>
             in if \<not> Linked then (False, this, M)
                else (True, this, runPipeline C ASMap M))"

text \<open>The operands of the annotation node, none when the module has no such node.\<close>

definition annotations :: "Module \<Rightarrow> MDTuple list" where
  "annotations M =
     (case NamedMetadata M ''hipsycl.sscp.annotations'' of None \<Rightarrow> [] | Some Ops \<Rightarrow> Ops)"


subsection \<open>translateToBackendFormat\<close>

text \<open>\<^verbatim>\<open>std::to_string\<close> of an \<^verbatim>\<open>int\<close>: decimal digits, with a minus sign below zero.\<close>

fun decimal :: "nat \<Rightarrow> string" where
  "decimal n =
     (if n < 10 then [''0123456789'' ! n]
      else decimal (n div 10) @ [''0123456789'' ! (n mod 10)])"

declare decimal.simps [simp del]

definition to_string :: "int \<Rightarrow> string" where
  "to_string R = (if R < 0 then CHR ''-'' # decimal (nat (- R)) else decimal (nat R))"

text \<open>
  Lines 127 to 131: the dump of the module under a fixed name. The error code of the
  stream is not looked at. When the stream cannot be opened and written, it keeps the
  error, and its destructor at line 131 ends the process with a fatal error: the result
  is then \<open>None\<close>, and nothing of the call comes after it.
\<close>

definition dumpModule :: "Collaborators \<Rightarrow> Module \<Rightarrow> FileSystem \<Rightarrow> FileSystem option" where
  "dumpModule C M fs =
     (if openForWriting C ''hipsycl-sscp-cpu.ll'' fs
      then Some (fs(''hipsycl-sscp-cpu.ll'' \<mapsto> printModule C M)) else None)"

text \<open>A temporary file that was created exists, empty, under its name.\<close>

definition created :: "string option \<Rightarrow> FileSystem \<Rightarrow> FileSystem" where
  "created F fs = (case F of None \<Rightarrow> fs | Some TmpName \<Rightarrow> fs(TmpName \<mapsto> []))"

text \<open>Lines 133 and 134, on the file system the dump left.\<close>

definition InputFile :: "Collaborators \<Rightarrow> FileSystem \<Rightarrow> string option" where
  "InputFile C fs = TempFile_create C ''hipsycl-sscp-cpu-%%%%%%.bc'' fs"

definition OutputFile :: "Collaborators \<Rightarrow> FileSystem \<Rightarrow> string option" where
  "OutputFile C fs =
     TempFile_create C ''hipsycl-sscp-cpu-%%%%%%.s'' (created (InputFile C fs) fs)"

text \<open>\<^verbatim>\<open>TempFile::discard\<close> removes the file of that name.\<close>

definition discard :: "string \<Rightarrow> FileSystem \<Rightarrow> FileSystem" where
  "discard TmpName fs = fs(TmpName := None)"

text \<open>Lines 165 to 171.\<close>

definition Invocation :: "string \<Rightarrow> LLVMToCpuTranslator \<Rightarrow> string \<Rightarrow> string \<Rightarrow> string list" where
  "Invocation ClangPath this OutputFilename InputTmpName =
     (let Inv = [ClangPath, ''-cc1'', ''-triple'', TargetTriple this, ''-O3'', ''-S'', ''-x'',
                 ''ir'', ''-o'', OutputFilename, InputTmpName]
      in if MCpu this \<noteq> ''generic'' then (Inv @ [''-target-cpu'']) @ [MCpu this] else Inv)"

text \<open>
  A call either returns (the result, the translator, the buffer \<open>out\<close> and the world as
  the call leaves them) or the process ends during the call, leaving a world behind.
\<close>

datatype Outcome =
    Returns "bool \<times> LLVMToCpuTranslator \<times> string \<times> World"
  | ProcessEnds World

text \<open>The world a call leaves, whichever way it went.\<close>

fun worldAfter :: "Outcome \<Rightarrow> World" where
  "worldAfter (Returns (r, this, out, W)) = W"
| "worldAfter (ProcessEnds W) = W"

text \<open>
  Lines 136 to 144. The message of a failed creation is built from \<open>TmpName\<close> read
  through an \<open>Expected\<close> that holds an error, which is undefined: by \<open>erroredTmpName\<close>
  the read either ends the process or yields some string, and only then the error is
  registered and the call returns. These two returns come before the scope guards of
  lines 148 to 155 exist, so nothing is discarded on them.
\<close>

definition couldNotCreate ::
  "Collaborators \<Rightarrow> LLVMToCpuTranslator \<Rightarrow> string \<Rightarrow> string \<Rightarrow> World \<Rightarrow> Outcome" where
  "couldNotCreate C this Model out W =
     (case erroredTmpName C Model of
        None \<Rightarrow> ProcessEnds W
      | Some TmpName \<Rightarrow>
          Returns (False,
                   registerError this (''LLVMToCpu: Could not create temp file: '' @ TmpName),
                   out, W))"

text \<open>
  The whole call. On every return after line 155 the guards run in reverse order of
  declaration, the output file first.
\<close>

definition translateToBackendFormat ::
  "Collaborators \<Rightarrow> LLVMToCpuTranslator \<Rightarrow> Module \<Rightarrow> string \<Rightarrow> World \<Rightarrow> Outcome" where
  "translateToBackendFormat C this FlavoredModule out W =
     (case dumpModule C FlavoredModule (Files W) of
        None \<Rightarrow> ProcessEnds W
      | Some fs0 \<Rightarrow>
         (let fs = created (OutputFile C fs0) (created (InputFile C fs0) fs0)
          in case InputFile C fs0 of
               None \<Rightarrow>
                 couldNotCreate C this ''hipsycl-sscp-cpu-%%%%%%.bc'' out (W\<lparr>Files := fs\<rparr>)
             | Some InputTmpName \<Rightarrow>
                 (case OutputFile C fs0 of
                    None \<Rightarrow>
                      couldNotCreate C this ''hipsycl-sscp-cpu-%%%%%%.s'' out (W\<lparr>Files := fs\<rparr>)
                  | Some OutputFilename \<Rightarrow>
                      (let fs = fs(InputTmpName \<mapsto> WriteBitcodeToFile C FlavoredModule);
                           ClangPath = HIPSYCL_CLANG_PATH C;
                           Inv = Invocation ClangPath this OutputFilename InputTmpName;
                           (R, fs) = ExecuteAndWait C ClangPath Inv fs;
                           W = W\<lparr>Spawned := Spawned W @ [(ClangPath, Inv, R)]\<rparr>;
                           W' = W\<lparr>Files := discard InputTmpName (discard OutputFilename fs)\<rparr>
                       in if R \<noteq> 0 then
                            Returns (False,
                              registerError this
                                (''LLVMToCpu: clang invocation failed with exit code ''
                                   @ to_string R),
                              out, W')
                          else
                            (case fs OutputFilename of
                               None \<Rightarrow>
                                 Returns (False,
                                   registerError this
                                     (''LLVMToCpu: Could not read result file''
                                        @ getFile_error_message C OutputFilename fs),
                                   out, W')
                             | Some Buffer \<Rightarrow> Returns (True, this, Buffer, W'))))))"

subsection \<open>Sample inputs\<close>

text \<open>
  A module with a kernel \<open>k\<close> and a function \<open>helper\<close>, both of internal linkage; a
  host where every collaborator succeeds and the compiler exits with code 17; the same
  host without the builtin library, where linking fails and leaves the module as it is;
  the same host where the output temporary file cannot be created (the read through
  the errored \<open>Expected\<close> yielding the empty string); and the same host where the dump
  can be written but no temporary file can be created, and the read through the errored
  \<open>Expected\<close> ends the process.
\<close>

definition exampleModule :: Module where
  "exampleModule =
     \<lparr>ModuleTargetTriple = [],
      Functions = [''k'' \<mapsto> \<lparr>Linkage = InternalLinkage, Body = ''ret void''\<rparr>,
                   ''helper'' \<mapsto> \<lparr>Linkage = InternalLinkage, Body = ''ret void''\<rparr>],
      NamedMetadata = Map.empty\<rparr>"

definition exampleWorld :: World where
  "exampleWorld = \<lparr>Files = Map.empty, Spawned = []\<rparr>"

definition exampleHost :: Collaborators where
  "exampleHost =
     \<lparr>getProcessTriple = ''x86_64-unknown-linux-gnu'',
      getHostCPUName = ''znver3'',
      get_install_directory = ''/opt/acpp'',
      join_path = (\<lambda>base components. foldl (\<lambda>p c. p @ ''/'' @ c) base components),
      linkBitcodeFile = (\<lambda>path M. (True, M, [])),
      AddressSpaceMap_default = Map.empty,
      runPipeline = (\<lambda>ASMap M. M),
      HIPSYCL_CLANG_PATH = ''/usr/bin/clang'',
      printModule = (\<lambda>M. ''; ModuleID''),
      WriteBitcodeToFile = (\<lambda>M. ''BC''),
      openForWriting = (\<lambda>path fs. True),
      TempFile_create =
        (\<lambda>model fs. if model = ''hipsycl-sscp-cpu-%%%%%%.bc''
                     then Some ''hipsycl-sscp-cpu-a1b2c3.bc''
                     else Some ''hipsycl-sscp-cpu-d4e5f6.s''),
      erroredTmpName = (\<lambda>model. Some []),
      ExecuteAndWait = (\<lambda>program args fs. (17, fs)),
      getFile_error_message = (\<lambda>path fs. ''No such file or directory'')\<rparr>"

definition exampleHost_noLibrary :: Collaborators where
  "exampleHost_noLibrary =
     exampleHost\<lparr>linkBitcodeFile :=
       (\<lambda>path M. (False, M, [''LLVMToBackend: Could not open file '' @ path]))\<rparr>"

definition exampleHost_noOutputFile :: Collaborators where
  "exampleHost_noOutputFile =
     exampleHost\<lparr>TempFile_create :=
       (\<lambda>model fs. if model = ''hipsycl-sscp-cpu-%%%%%%.bc''
                    then Some ''hipsycl-sscp-cpu-a1b2c3.bc'' else None)\<rparr>"

definition exampleHost_noTempFiles :: Collaborators where
  "exampleHost_noTempFiles =
     exampleHost\<lparr>TempFile_create := (\<lambda>model fs. None),
                 erroredTmpName := (\<lambda>model. None)\<rparr>"

definition exampleTranslator :: LLVMToCpuTranslator where
  "exampleTranslator = createLLVMToCpuTranslator exampleHost [''k'']"

section \<open>Configuration\<close>

text \<open>
  C7. \<open>applyBuildOption\<close> with key \<open>triple\<close> stores the value in \<open>TargetTriple\<close>, returns
  success and leaves \<open>MCpu\<close> as it was; with key \<open>cpu\<close> it stores the value in \<open>MCpu\<close>,
  returns success and leaves \<open>TargetTriple\<close> as it was; with any other key it returns
  failure and the translator is the one it was: neither field changes and the error log
  gets no entry. The kernel names and the error log change in no case.
\<close>

theorem applyBuildOption_frame:
  "(Option = ''triple'' \<longrightarrow>
      fst (applyBuildOption this Option Value) = True
      \<and> TargetTriple (snd (applyBuildOption this Option Value)) = Value
      \<and> MCpu (snd (applyBuildOption this Option Value)) = MCpu this)
   \<and> (Option = ''cpu'' \<longrightarrow>
      fst (applyBuildOption this Option Value) = True
      \<and> MCpu (snd (applyBuildOption this Option Value)) = Value
      \<and> TargetTriple (snd (applyBuildOption this Option Value)) = TargetTriple this)
   \<and> (Option \<noteq> ''triple'' \<and> Option \<noteq> ''cpu'' \<longrightarrow>
      fst (applyBuildOption this Option Value) = False
      \<and> snd (applyBuildOption this Option Value) = this)
   \<and> Errors (snd (applyBuildOption this Option Value)) = Errors this
   \<and> KernelNames (snd (applyBuildOption this Option Value)) = KernelNames this"
  by (simp add: applyBuildOption_def)

theorem applyBuildOption_frame_witness:
  "fst (applyBuildOption exampleTranslator ''triple'' ''x86_64-pc-linux'') = True
   \<and> TargetTriple (snd (applyBuildOption exampleTranslator ''triple'' ''x86_64-pc-linux'')) = ''x86_64-pc-linux''
   \<and> MCpu (snd (applyBuildOption exampleTranslator ''triple'' ''x86_64-pc-linux'')) = MCpu exampleTranslator
   \<and> fst (applyBuildOption exampleTranslator ''cpu'' ''generic'') = True
   \<and> MCpu (snd (applyBuildOption exampleTranslator ''cpu'' ''generic'')) = ''generic''
   \<and> TargetTriple (snd (applyBuildOption exampleTranslator ''cpu'' ''generic'')) = TargetTriple exampleTranslator
   \<and> fst (applyBuildOption exampleTranslator ''bogus'' ''x'') = False
   \<and> snd (applyBuildOption exampleTranslator ''bogus'' ''x'') = exampleTranslator"
  using applyBuildOption_frame [of "''triple''" exampleTranslator "''x86_64-pc-linux''"]
        applyBuildOption_frame [of "''cpu''" exampleTranslator "''generic''"]
        applyBuildOption_frame [of "''bogus''" exampleTranslator "''x''"]
  by simp

section \<open>The address-space map\<close>

lemma getAddressSpaceMap_apply: "getAddressSpaceMap this ASMap0 AS = Some 0"
  by (cases AS) (simp_all add: getAddressSpaceMap_def)

text \<open>
  C8. Whatever the translator's configuration and whatever a default-constructed map
  holds, the map returned by \<open>getAddressSpaceMap\<close> has an entry for each of the seven
  classifications generic, global, local, private, constant, alloca default and global
  variable default, and every value of the map is 0.
\<close>

theorem getAddressSpaceMap_seven_zero:
  "getAddressSpaceMap this ASMap0 Generic = Some 0
   \<and> getAddressSpaceMap this ASMap0 Global = Some 0
   \<and> getAddressSpaceMap this ASMap0 Local = Some 0
   \<and> getAddressSpaceMap this ASMap0 Private = Some 0
   \<and> getAddressSpaceMap this ASMap0 Constant = Some 0
   \<and> getAddressSpaceMap this ASMap0 AllocaDefault = Some 0
   \<and> getAddressSpaceMap this ASMap0 GlobalVariableDefault = Some 0
   \<and> ran (getAddressSpaceMap this ASMap0) = {0}"
proof -
  have "ran (getAddressSpaceMap this ASMap0) = {0}"
    by (auto simp add: ran_def getAddressSpaceMap_apply)
  then show ?thesis
    by (simp add: getAddressSpaceMap_apply)
qed

text \<open>
  C9. The returned map has an eighth entry, beyond those seven: the classification
  constant global variable default, with code 0. The map has exactly these eight keys.
\<close>

theorem getAddressSpaceMap_eighth_entry:
  "getAddressSpaceMap this ASMap0 ConstantGlobalVariableDefault = Some 0
   \<and> ConstantGlobalVariableDefault
        \<notin> {Generic, Global, Local, Private, Constant, AllocaDefault, GlobalVariableDefault}
   \<and> dom (getAddressSpaceMap this ASMap0) =
        insert ConstantGlobalVariableDefault
          {Generic, Global, Local, Private, Constant, AllocaDefault, GlobalVariableDefault}
   \<and> card (dom (getAddressSpaceMap this ASMap0)) = 8"
proof -
  have d: "dom (getAddressSpaceMap this ASMap0) =
        insert ConstantGlobalVariableDefault
          {Generic, Global, Local, Private, Constant, AllocaDefault, GlobalVariableDefault}"
  proof -
    have "AS \<in> insert ConstantGlobalVariableDefault
          {Generic, Global, Local, Private, Constant, AllocaDefault, GlobalVariableDefault}" for AS
      by (cases AS) simp_all
    moreover have "AS \<in> dom (getAddressSpaceMap this ASMap0)" for AS
      by (simp add: domIff getAddressSpaceMap_apply)
    ultimately show ?thesis by blast
  qed
  show ?thesis
    unfolding d by (simp add: getAddressSpaceMap_apply)
qed

section \<open>The kernel loop of flavoring\<close>

lemma isKernelAfterFlavoring_iff:
  "isKernelAfterFlavoring this FName = (FName \<in> set (KernelNames this))"
proof -
  have "nameAmong FName Names = (FName \<in> set Names)" for Names
    by (induction Names) auto
  then show ?thesis
    by (simp add: isKernelAfterFlavoring_def)
qed

lemma Functions_flavorKernel:
  "Functions (flavorKernel M K) n =
     (if n = K then map_option (\<lambda>F. F\<lparr>Linkage := ExternalLinkage\<rparr>) (Functions M n)
      else Functions M n)"
  by (simp add: flavorKernel_def getFunction_def setLinkage_def addNamedMetadataOperand_def
           split: option.splits)

lemma annotations_flavorKernel:
  "annotations (flavorKernel M K) =
     annotations M @ (if Functions M K = None then [] else [kernelAnnotation K])"
  by (simp add: flavorKernel_def getFunction_def setLinkage_def addNamedMetadataOperand_def
                annotations_def split: option.splits)

lemma NamedMetadata_flavorKernel:
  "Name \<noteq> ''hipsycl.sscp.annotations'' \<Longrightarrow>
     NamedMetadata (flavorKernel M K) Name = NamedMetadata M Name"
  by (simp add: flavorKernel_def getFunction_def setLinkage_def addNamedMetadataOperand_def
           split: option.splits)

lemma ModuleTargetTriple_flavorKernel:
  "ModuleTargetTriple (flavorKernel M K) = ModuleTargetTriple M"
  by (simp add: flavorKernel_def getFunction_def setLinkage_def addNamedMetadataOperand_def
           split: option.splits)

lemma Functions_flavorKernels:
  "Functions (flavorKernels M Ks) n =
     (if n \<in> set Ks then map_option (\<lambda>F. F\<lparr>Linkage := ExternalLinkage\<rparr>) (Functions M n)
      else Functions M n)"
proof (induction Ks arbitrary: M)
  case Nil
  show ?case by simp
next
  case (Cons K Ks)
  show ?case
    by (cases "Functions M n") (auto simp add: Cons.IH Functions_flavorKernel)
qed

lemma annotations_flavorKernels:
  "annotations (flavorKernels M Ks) =
     annotations M @ map kernelAnnotation (filter (\<lambda>K. K \<in> dom (Functions M)) Ks)"
proof (induction Ks arbitrary: M)
  case Nil
  show ?case by simp
next
  case (Cons K Ks)
  have same: "dom (Functions (flavorKernel M K)) = dom (Functions M)"
    by (auto simp add: Functions_flavorKernel dom_def)
  show ?case
    by (simp add: Cons.IH annotations_flavorKernel same domIff)
qed

lemma ModuleTargetTriple_flavorKernels:
  "ModuleTargetTriple (flavorKernels M Ks) = ModuleTargetTriple M"
  by (induction Ks arbitrary: M) (simp_all add: ModuleTargetTriple_flavorKernel)

lemma NamedMetadata_flavorKernels:
  "Name \<noteq> ''hipsycl.sscp.annotations'' \<Longrightarrow>
     NamedMetadata (flavorKernels M Ks) Name = NamedMetadata M Name"
  by (induction Ks arbitrary: M) (simp_all add: NamedMetadata_flavorKernel)




lemma count_list_unresolved:
  "Functions M n = None \<Longrightarrow> count_list (filter (\<lambda>K. K \<in> dom (Functions M)) Ks) n = 0"
  by (induction Ks) auto


lemma Functions_setTargetTriple: "Functions (setTargetTriple M Triple) = Functions M"
  by (simp add: setTargetTriple_def)

lemma annotations_setTargetTriple: "annotations (setTargetTriple M Triple) = annotations M"
  by (simp add: setTargetTriple_def annotations_def)

section \<open>Flavoring as a whole\<close>

text \<open>
  What \<open>toBackendFlavor\<close> returns, in terms of the module it hands to the linker: the
  module with the process triple set and the kernel loop run over \<open>KernelNames\<close>.
\<close>

lemma toBackendFlavor_result:
  assumes "M' = flavorKernels (setTargetTriple M (getProcessTriple C)) (KernelNames this)"
  shows "fst (toBackendFlavor C this M) = fst (linkBitcodeFile C (BuiltinBitcodeFile C) M')"
    and "snd (snd (toBackendFlavor C this M)) =
           (if fst (linkBitcodeFile C (BuiltinBitcodeFile C) M')
            then runPipeline C (getAddressSpaceMap this (AddressSpaceMap_default C))
                   (fst (snd (linkBitcodeFile C (BuiltinBitcodeFile C) M')))
            else fst (snd (linkBitcodeFile C (BuiltinBitcodeFile C) M')))"
  unfolding assms by (simp_all add: toBackendFlavor_def Let_def split: prod.splits)







lemma toBackendFlavor_exampleHost:
  "toBackendFlavor exampleHost this M
     = (True, this, flavorKernels (setTargetTriple M ''x86_64-unknown-linux-gnu'') (KernelNames this))"
  by (simp add: toBackendFlavor_def exampleHost_def Let_def)




text \<open>Flavoring never reads the configured triple: its result is the same whatever
  \<open>TargetTriple\<close> holds.\<close>

lemma toBackendFlavor_TargetTriple_unread:
  "fst (toBackendFlavor C (this\<lparr>TargetTriple := T\<rparr>) M) = fst (toBackendFlavor C this M)
   \<and> snd (snd (toBackendFlavor C (this\<lparr>TargetTriple := T\<rparr>) M))
       = snd (snd (toBackendFlavor C this M))"
  by (simp add: toBackendFlavor_def getAddressSpaceMap_def Let_def split: prod.splits)

text \<open>
  C1 says that flavoring sets the module's triple to the configured \<open>TargetTriple\<close>. Line 77
  reads the process triple afresh instead. On a host whose process triple is
  \<open>x86_64-unknown-linux-gnu\<close>, after \<open>applyBuildOption\<close> has set \<open>TargetTriple\<close> to
  \<open>aarch64-unknown-linux-gnu\<close>, flavoring succeeds and the module declares the host's
  triple, not the configured one.
\<close>

theorem toBackendFlavor_ignores_configured_triple:
  "applyBuildOption exampleTranslator ''triple'' ''aarch64-unknown-linux-gnu''
     = (True, exampleTranslator\<lparr>TargetTriple := ''aarch64-unknown-linux-gnu''\<rparr>)
   \<and> fst (toBackendFlavor exampleHost
            (exampleTranslator\<lparr>TargetTriple := ''aarch64-unknown-linux-gnu''\<rparr>) exampleModule) = True
   \<and> ModuleTargetTriple (snd (snd (toBackendFlavor exampleHost
            (exampleTranslator\<lparr>TargetTriple := ''aarch64-unknown-linux-gnu''\<rparr>) exampleModule)))
       = ''x86_64-unknown-linux-gnu''"
  by (simp add: applyBuildOption_def toBackendFlavor_exampleHost
        ModuleTargetTriple_flavorKernels setTargetTriple_def)

lemma toBackendFlavor_exampleHost_noLibrary:
  "toBackendFlavor exampleHost_noLibrary this M
     = (False,
        this\<lparr>Errors := Errors this @
          [''LLVMToBackend: Could not open file '' @ BuiltinBitcodeFile exampleHost_noLibrary]\<rparr>,
        flavorKernels (setTargetTriple M ''x86_64-unknown-linux-gnu'') (KernelNames this))"
  by (simp add: toBackendFlavor_def exampleHost_noLibrary_def exampleHost_def Let_def)

lemma flavorKernels_example_k:
  "Functions (flavorKernels (setTargetTriple exampleModule T) [''k'']) ''k''
     = Some \<lparr>Linkage = ExternalLinkage, Body = ''ret void''\<rparr>"
  "annotations (flavorKernels (setTargetTriple exampleModule T) [''k''])
     = [[ValueAsMetadata ''k'', MDString ''kernel'', ConstantAsMetadata 32 1]]"
  by (simp_all add: flavorKernel_def getFunction_def setLinkage_def addNamedMetadataOperand_def
        setTargetTriple_def exampleModule_def annotations_def kernelAnnotation_def)

text \<open>
  C2 does not hold as stated: without the builtin library, flavoring returns failure, and
  yet the kernel \<open>k\<close>, of internal linkage before the call, has external linkage after
  it, and the annotation node, absent before, holds the record of \<open>k\<close>.
\<close>

theorem toBackendFlavor_failure_keeps_annotation:
  "fst (toBackendFlavor exampleHost_noLibrary exampleTranslator exampleModule) = False
   \<and> Functions exampleModule ''k'' = Some \<lparr>Linkage = InternalLinkage, Body = ''ret void''\<rparr>
   \<and> Functions (snd (snd (toBackendFlavor exampleHost_noLibrary exampleTranslator exampleModule)))
        ''k'' = Some \<lparr>Linkage = ExternalLinkage, Body = ''ret void''\<rparr>
   \<and> annotations exampleModule = []
   \<and> annotations (snd (snd (toBackendFlavor exampleHost_noLibrary exampleTranslator exampleModule)))
       = [[ValueAsMetadata ''k'', MDString ''kernel'', ConstantAsMetadata 32 1]]"
proof -
  have names: "KernelNames exampleTranslator = [''k'']"
    by (simp add: exampleTranslator_def createLLVMToCpuTranslator_def)
  have before: "Functions exampleModule ''k'' = Some \<lparr>Linkage = InternalLinkage, Body = ''ret void''\<rparr>"
    "annotations exampleModule = []"
    by (simp_all add: exampleModule_def annotations_def)
  show ?thesis
    by (simp add: toBackendFlavor_exampleHost_noLibrary names flavorKernels_example_k before
             del: flavorKernels.simps)
qed

text \<open>
  C2, amended. Whenever linking the builtin library fails, \<open>toBackendFlavor\<close> returns
  failure without running the pipeline, and nothing done before the attempt is undone:
  the module the call leaves is what the failed attempt left of the module it received,
  and that module already declares the process triple, has external linkage on every
  function named in \<open>KernelNames\<close>, and holds one more record in the annotation node for
  each entry of \<open>KernelNames\<close> that resolves to a function. Only the functions not named
  in \<open>KernelNames\<close> have their linkage untouched by the call itself. The error log gains
  the entries the linker registered.
\<close>

theorem toBackendFlavor_link_failure:
  assumes "M' = flavorKernels (setTargetTriple M (getProcessTriple C)) (KernelNames this)"
    and "fst (linkBitcodeFile C (BuiltinBitcodeFile C) M') = False"
  shows "fst (toBackendFlavor C this M) = False
         \<and> snd (snd (toBackendFlavor C this M))
             = fst (snd (linkBitcodeFile C (BuiltinBitcodeFile C) M'))
         \<and> Errors (fst (snd (toBackendFlavor C this M)))
             = Errors this @ snd (snd (linkBitcodeFile C (BuiltinBitcodeFile C) M'))
         \<and> ModuleTargetTriple M' = getProcessTriple C
         \<and> Functions M' n =
             (if n \<in> set (KernelNames this)
              then map_option (\<lambda>F. F\<lparr>Linkage := ExternalLinkage\<rparr>) (Functions M n)
              else Functions M n)
         \<and> annotations M' =
             annotations M
               @ map kernelAnnotation (filter (\<lambda>K. K \<in> dom (Functions M)) (KernelNames this))"
proof -
  have result: "fst (toBackendFlavor C this M) = False"
    "snd (snd (toBackendFlavor C this M))
       = fst (snd (linkBitcodeFile C (BuiltinBitcodeFile C) M'))"
    using assms(2) by (simp_all add: toBackendFlavor_result [OF assms(1)])
  have log: "Errors (fst (snd (toBackendFlavor C this M)))
             = Errors this @ snd (snd (linkBitcodeFile C (BuiltinBitcodeFile C) M'))"
    unfolding assms(1) by (simp add: toBackendFlavor_def Let_def split: prod.splits)
  have triple: "ModuleTargetTriple M' = getProcessTriple C"
    unfolding assms(1) by (simp add: ModuleTargetTriple_flavorKernels setTargetTriple_def)
  have funs: "Functions M' n =
             (if n \<in> set (KernelNames this)
              then map_option (\<lambda>F. F\<lparr>Linkage := ExternalLinkage\<rparr>) (Functions M n)
              else Functions M n)"
    unfolding assms(1) by (simp add: Functions_flavorKernels Functions_setTargetTriple)
  have records: "annotations M' =
             annotations M
               @ map kernelAnnotation (filter (\<lambda>K. K \<in> dom (Functions M)) (KernelNames this))"
    unfolding assms(1)
    by (simp add: annotations_flavorKernels annotations_setTargetTriple Functions_setTargetTriple)
  from result log triple funs records show ?thesis by blast
qed

text \<open>The sample host without the builtin library, where the failed attempt leaves the
  module as it received it: the call leaves the kernel \<open>k\<close> with external linkage.\<close>

theorem toBackendFlavor_link_failure_witness:
  "fst (linkBitcodeFile exampleHost_noLibrary (BuiltinBitcodeFile exampleHost_noLibrary)
       (flavorKernels (setTargetTriple exampleModule (getProcessTriple exampleHost_noLibrary))
          (KernelNames exampleTranslator))) = False
   \<and> fst (toBackendFlavor exampleHost_noLibrary exampleTranslator exampleModule) = False
   \<and> Functions (snd (snd (toBackendFlavor exampleHost_noLibrary exampleTranslator exampleModule)))
        ''k''
       = (if ''k'' \<in> set (KernelNames exampleTranslator)
          then map_option (\<lambda>F. F\<lparr>Linkage := ExternalLinkage\<rparr>) (Functions exampleModule ''k'')
          else Functions exampleModule ''k'')"
proof -
  have failed:
    "fst (linkBitcodeFile exampleHost_noLibrary (BuiltinBitcodeFile exampleHost_noLibrary)
       (flavorKernels (setTargetTriple exampleModule (getProcessTriple exampleHost_noLibrary))
          (KernelNames exampleTranslator))) = False"
    by (simp add: exampleHost_noLibrary_def exampleHost_def)
  have untouched:
    "fst (snd (linkBitcodeFile exampleHost_noLibrary (BuiltinBitcodeFile exampleHost_noLibrary) X))
       = X" for X
    by (simp add: exampleHost_noLibrary_def exampleHost_def)
  from toBackendFlavor_link_failure [OF refl failed, of "''k''"] failed
  show ?thesis by (simp add: untouched)
qed

section \<open>Lowering\<close>

lemma to_string_17: "to_string 17 = ''17''"
  by (simp add: to_string_def decimal.simps)

lemma Invocation_eq:
  "Invocation ClangPath this OutputFilename InputTmpName
     = [ClangPath, ''-cc1'', ''-triple'', TargetTriple this, ''-O3'', ''-S'', ''-x'', ''ir'',
        ''-o'', OutputFilename, InputTmpName]
       @ (if MCpu this = ''generic'' then [] else [''-target-cpu'', MCpu this])"
  by (simp add: Invocation_def)

text \<open>The call once the dump was written and both temporary files were created: it runs
  the compiler on the invocation, and its result, the error log, the buffer and the
  world follow from what that run returns.\<close>

lemma translateToBackendFormat_compiler_run:
  assumes "dumpModule C M (Files W) = Some fs0"
    and "InputFile C fs0 = Some InputTmpName"
    and "OutputFile C fs0 = Some OutputFilename"
    and "Inv = Invocation (HIPSYCL_CLANG_PATH C) this OutputFilename InputTmpName"
    and "run = ExecuteAndWait C (HIPSYCL_CLANG_PATH C) Inv
                 ((created (Some OutputFilename) (created (Some InputTmpName) fs0))
                    (InputTmpName \<mapsto> WriteBitcodeToFile C M))"
    and "W' = W\<lparr>Spawned := Spawned W @ [(HIPSYCL_CLANG_PATH C, Inv, fst run)],
                Files := discard InputTmpName (discard OutputFilename (snd run))\<rparr>"
  shows "translateToBackendFormat C this M out W =
           Returns
             (if fst run \<noteq> 0 then
                (False,
                 this\<lparr>Errors := Errors this
                   @ [''LLVMToCpu: clang invocation failed with exit code '' @ to_string (fst run)]\<rparr>,
                 out, W')
              else
                (case snd run OutputFilename of
                   None \<Rightarrow>
                     (False,
                      this\<lparr>Errors := Errors this
                        @ [''LLVMToCpu: Could not read result file''
                             @ getFile_error_message C OutputFilename (snd run)]\<rparr>,
                      out, W')
                 | Some Buffer \<Rightarrow> (True, this, Buffer, W')))"
  unfolding assms(4,5,6) using assms(1,2,3)
  by (simp add: translateToBackendFormat_def Let_def registerError_def
           split: prod.splits option.splits)






text \<open>The triple argument after the option \<open>triple\<close> was applied.\<close>

lemma Invocation_after_applyBuildOption:
  "Invocation ClangPath (snd (applyBuildOption this ''triple'' Value)) OutputFilename InputTmpName ! 3
     = Value"
  by (simp add: Invocation_eq applyBuildOption_def)

text \<open>
  Failure after the compiler ran: a run that exits with a code other than 0, or one that
  exits with 0 and leaves no readable output file, makes the call return failure with
  the buffer as it was and one more entry in the error log; exit code 17 gives the
  entry \<open>LLVMToCpu: clang invocation failed with exit code 17\<close>.
\<close>

lemma translateToBackendFormat_compiler_failure:
  assumes "dumpModule C M (Files W) = Some fs0"
    and "InputFile C fs0 = Some InputTmpName"
    and "OutputFile C fs0 = Some OutputFilename"
    and "run = ExecuteAndWait C (HIPSYCL_CLANG_PATH C)
                 (Invocation (HIPSYCL_CLANG_PATH C) this OutputFilename InputTmpName)
                 ((created (Some OutputFilename) (created (Some InputTmpName) fs0))
                    (InputTmpName \<mapsto> WriteBitcodeToFile C M))"
    and "fst run \<noteq> 0 \<or> snd run OutputFilename = None"
  shows "\<exists>E W'. translateToBackendFormat C this M out W
                  = Returns (False, this\<lparr>Errors := Errors this @ [E]\<rparr>, out, W')
                \<and> (fst run \<noteq> 0 \<longrightarrow>
                     E = ''LLVMToCpu: clang invocation failed with exit code ''
                           @ to_string (fst run))
                \<and> (fst run = 17 \<longrightarrow> sublist ''17'' E)"
proof (cases "fst run \<noteq> 0")
  case True
  have "sublist ''17'' (''LLVMToCpu: clang invocation failed with exit code '' @ ''17'')"
    by (rule sublist_append_leftI)
  then show ?thesis
    using True
    by (simp add: translateToBackendFormat_compiler_run [OF assms(1,2,3) refl assms(4) refl]
          to_string_17)
next
  case False
  then have "translateToBackendFormat C this M out W
          = Returns (False,
              this\<lparr>Errors := Errors this
                @ [''LLVMToCpu: Could not read result file''
                     @ getFile_error_message C OutputFilename (snd run)]\<rparr>,
              out,
              W\<lparr>Spawned := Spawned W
                   @ [(HIPSYCL_CLANG_PATH C,
                       Invocation (HIPSYCL_CLANG_PATH C) this OutputFilename InputTmpName,
                       fst run)],
                 Files := discard InputTmpName (discard OutputFilename (snd run))\<rparr>)"
    using assms(5)
    by (simp add: translateToBackendFormat_compiler_run [OF assms(1,2,3) refl assms(4) refl])
  with False show ?thesis
    by (intro exI [of _ "''LLVMToCpu: Could not read result file''
                           @ getFile_error_message C OutputFilename (snd run)"]
              exI [of _ "W\<lparr>Spawned := Spawned W
                   @ [(HIPSYCL_CLANG_PATH C,
                       Invocation (HIPSYCL_CLANG_PATH C) this OutputFilename InputTmpName,
                       fst run)],
                 Files := discard InputTmpName (discard OutputFilename (snd run))\<rparr>"])
       simp
qed

text \<open>
  Failure to create a temporary file: the call reads \<open>TmpName\<close> through the errored
  \<open>Expected\<close>. Where that read ends the process, the call does not return; where it
  yields a string, the call returns failure with one more entry and the buffer as it
  was.
\<close>

lemma translateToBackendFormat_could_not_create:
  assumes "dumpModule C M (Files W) = Some fs0"
    and "InputFile C fs0 = None \<or> OutputFile C fs0 = None"
  shows "(\<exists>W'. translateToBackendFormat C this M out W = ProcessEnds W')
         \<or> (\<exists>E W'. translateToBackendFormat C this M out W
                      = Returns (False, this\<lparr>Errors := Errors this @ [E]\<rparr>, out, W'))"
  using assms
  by (auto simp add: translateToBackendFormat_def couldNotCreate_def registerError_def Let_def
           split: option.splits)

text \<open>
  C5 says that a failure to create a temporary file makes the call return failure with
  the buffer as it was and one more entry in the error log. Line 137 builds that entry
  from \<open>TmpName\<close> read through the \<open>Expected\<close> that holds the error, which is undefined.
  On the sample host where the dump is written, no temporary file can be created and
  that read ends the process, the call does not return: the process ends with no
  compiler run, and no entry reaches a caller.
\<close>

theorem translateToBackendFormat_creation_failure_ends_process:
  "dumpModule exampleHost_noTempFiles exampleModule (Files exampleWorld)
     = Some ((Files exampleWorld)(''hipsycl-sscp-cpu.ll'' \<mapsto> ''; ModuleID''))
   \<and> InputFile exampleHost_noTempFiles
        ((Files exampleWorld)(''hipsycl-sscp-cpu.ll'' \<mapsto> ''; ModuleID'')) = None
   \<and> translateToBackendFormat exampleHost_noTempFiles exampleTranslator exampleModule ''old''
        exampleWorld
       = ProcessEnds
           (exampleWorld\<lparr>Files :=
              (Files exampleWorld)(''hipsycl-sscp-cpu.ll'' \<mapsto> ''; ModuleID'')\<rparr>)
   \<and> Spawned (worldAfter (translateToBackendFormat exampleHost_noTempFiles exampleTranslator
        exampleModule ''old'' exampleWorld)) = []"
  by (simp add: translateToBackendFormat_def couldNotCreate_def Let_def dumpModule_def
        InputFile_def OutputFile_def created_def exampleHost_noTempFiles_def exampleHost_def
        exampleWorld_def)

text \<open>Once both temporary files were created, the call returns and both are gone.\<close>

lemma translateToBackendFormat_discards_both:
  assumes "dumpModule C M (Files W) = Some fs0"
    and "InputFile C fs0 = Some InputTmpName"
    and "OutputFile C fs0 = Some OutputFilename"
  shows "Files (worldAfter (translateToBackendFormat C this M out W)) InputTmpName = None
         \<and> Files (worldAfter (translateToBackendFormat C this M out W)) OutputFilename = None"
  by (simp add: translateToBackendFormat_compiler_run [OF assms refl refl refl] discard_def
           split: option.splits)

text \<open>When the input file was created and the output file was not, the input file is
  there after the call, whether the call returns or the process ends.\<close>

lemma translateToBackendFormat_early_return_keeps_input_file:
  assumes "dumpModule C M (Files W) = Some fs0"
    and "InputFile C fs0 = Some InputTmpName"
    and "OutputFile C fs0 = None"
  shows "Files (worldAfter (translateToBackendFormat C this M out W)) InputTmpName = Some []"
  using assms
  by (simp add: translateToBackendFormat_def couldNotCreate_def created_def Let_def
           split: option.splits)

text \<open>
  C3 says that both temporary files are gone when the call returns, on every exit path.
  On the sample host where the input file is created and the creation of the output file
  fails, the call returns failure at line 143, before the scope guards exist, and the
  input file, which was not there before the call, is still on the file system.
\<close>

theorem translateToBackendFormat_leaves_input_file:
  "InputFile exampleHost_noOutputFile
       ((Files exampleWorld)(''hipsycl-sscp-cpu.ll'' \<mapsto> ''; ModuleID''))
     = Some ''hipsycl-sscp-cpu-a1b2c3.bc''
   \<and> OutputFile exampleHost_noOutputFile
       ((Files exampleWorld)(''hipsycl-sscp-cpu.ll'' \<mapsto> ''; ModuleID'')) = None
   \<and> Files exampleWorld ''hipsycl-sscp-cpu-a1b2c3.bc'' = None
   \<and> translateToBackendFormat exampleHost_noOutputFile exampleTranslator exampleModule
        ''old'' exampleWorld
       = Returns (False,
                  registerError exampleTranslator ''LLVMToCpu: Could not create temp file: '',
                  ''old'',
                  exampleWorld\<lparr>Files :=
                    (Files exampleWorld)(''hipsycl-sscp-cpu.ll'' \<mapsto> ''; ModuleID'',
                                         ''hipsycl-sscp-cpu-a1b2c3.bc'' \<mapsto> [])\<rparr>)
   \<and> Files (worldAfter (translateToBackendFormat exampleHost_noOutputFile exampleTranslator
        exampleModule ''old'' exampleWorld)) ''hipsycl-sscp-cpu-a1b2c3.bc'' = Some []"
  by (simp add: translateToBackendFormat_def couldNotCreate_def Let_def dumpModule_def
        InputFile_def OutputFile_def created_def exampleHost_noOutputFile_def exampleHost_def
        exampleWorld_def)

end
